theory Spec2Isabelle
  imports Main "HOL-Library.Word"
begin

section \<open>JavaScript strings\<close>

text \<open>
  A JavaScript string is a sequence of 16-bit code units. String literals of the source
  are written \<open>js ''...''\<close>.
\<close>

type_synonym jschar = "16 word"
type_synonym jstring = "jschar list"

definition ch :: "char \<Rightarrow> jschar" where
  "ch c = word_of_int (of_char c)"

definition js :: "string \<Rightarrow> jstring" where
  "js s = map ch s"

abbreviation DQUOTE :: jschar where "DQUOTE \<equiv> 0x22"
abbreviation BSLASH :: jschar where "BSLASH \<equiv> 0x5C"
abbreviation LF :: jschar where "LF \<equiv> 0x0A"
abbreviation CR :: jschar where "CR \<equiv> 0x0D"

text \<open>
  \<open>is_white_space\<close> is the class \<open>\s\<close> of regular expressions and the set that
  \<open>String.prototype.trim\<close> strips: WhiteSpace and LineTerminator of ECMAScript.
  \<open>is_line_terminator\<close> is the set that \<open>.\<close> does not match.
\<close>

definition is_line_terminator :: "jschar \<Rightarrow> bool" where
  "is_line_terminator c = (c = 0x0A \<or> c = 0x0D \<or> c = 0x2028 \<or> c = 0x2029)"

definition is_white_space :: "jschar \<Rightarrow> bool" where
  "is_white_space c =
     (c = 0x09 \<or> c = 0x0B \<or> c = 0x0C \<or> c = 0x20 \<or> c = 0xA0 \<or> c = 0x1680
      \<or> (0x2000 \<le> uint c \<and> uint c \<le> 0x200A)
      \<or> c = 0x202F \<or> c = 0x205F \<or> c = 0x3000 \<or> c = 0xFEFF
      \<or> is_line_terminator c)"

definition is_digit :: "jschar \<Rightarrow> bool" where
  "is_digit c = (0x30 \<le> uint c \<and> uint c \<le> 0x39)"

definition trim :: "jstring \<Rightarrow> jstring" where
  "trim s = rev (dropWhile is_white_space (rev (dropWhile is_white_space s)))"

definition startsWith :: "jstring \<Rightarrow> jstring \<Rightarrow> bool" where
  "startsWith s p = (take (length p) s = p)"

text \<open>
  \<open>s.slice(start, fin)\<close>: a negative index counts from the end, both indices are clamped
  to the string, and the result is empty when the range is.
\<close>

definition slice :: "jstring \<Rightarrow> int \<Rightarrow> int \<Rightarrow> jstring" where
  "slice s start fin =
     (let len = int (length s);
          from = (if start < 0 then max (len + start) 0 else min start len);
          to = (if fin < 0 then max (len + fin) 0 else min fin len)
      in take (nat (to - from)) (drop (nat from) s))"

text \<open>Decimal digits of an integer (\<open>String(n)\<close> on an integer).\<close>

function dec_digits :: "int \<Rightarrow> jstring" where
  "dec_digits n = (if n < 10 then [word_of_int (48 + n)]
                   else dec_digits (n div 10) @ [word_of_int (48 + n mod 10)])"
  by pat_completeness auto
termination
  by (relation "measure nat") auto

declare dec_digits.simps [simp del]

definition dec_int :: "int \<Rightarrow> jstring" where
  "dec_int i = (if i < 0 then 0x2D # dec_digits (- i) else dec_digits i)"

section \<open>Errors\<close>

datatype exn = Error jstring | TypeError jstring | SyntaxError jstring

fun message :: "exn \<Rightarrow> jstring" where
  "message (Error m) = m"
| "message (TypeError m) = m"
| "message (SyntaxError m) = m"

section \<open>JSON values\<close>

text \<open>
  \<open>JSONValue\<close> of the source. The type \<open>'n\<close> is the Number type of the platform
  (IEEE doubles); its operations are fields of the platform record below. An object is
  the list of its own properties in enumeration order.
\<close>

datatype 'n json =
    JNull
  | JBool bool
  | JNumber 'n
  | JString jstring
  | JArray "'n json list"
  | JObject "(jstring \<times> 'n json) list"

section \<open>The platform\<close>

text \<open>
  What the program takes from its environment: the Number type with its conversions, the
  wording of the parse errors of \<open>JSON.parse\<close>, the templating engine, the HMAC of
  \<open>node:crypto\<close>, the clock and \<open>fetch\<close>.
\<close>

text \<open>
  A JavaScript Number as far as a timeout needs it: NaN, a double whose value is an
  integer, or an infinity.
\<close>

datatype jsnum = JsNaN | JsInt int | JsInfinity | JsNegInfinity

text \<open>
  A request as \<open>fetch\<close> receives it. \<open>req_abort_after\<close> is the delay of the timer
  that aborts the request, when there is one.
\<close>

record request =
  req_url :: jstring
  req_method :: jstring
  req_headers :: "(jstring \<times> jstring) list"
  req_body :: jstring
  req_abort_after :: "jsnum option"

record response =
  resp_ok :: bool
  resp_status :: int
  resp_text :: "exn + jstring"

type_synonym 'n helper = "'n json option \<Rightarrow> exn + jstring"

record 'n platform =
  to_number :: "jstring \<Rightarrow> 'n"
  is_nan :: "'n \<Rightarrow> bool"
  is_finite :: "'n \<Rightarrow> bool"
  number_to_string :: "'n \<Rightarrow> jstring"
  syntax_error_message :: "jstring \<Rightarrow> jstring"
  handlebars :: "(jstring \<times> 'n helper) list \<Rightarrow> jstring \<Rightarrow> (jstring \<times> 'n json) list \<Rightarrow> exn + jstring"
  hmac_sha256_base64 :: "jstring \<Rightarrow> jstring \<Rightarrow> jstring"
  date_now :: int
  fetch :: "request \<Rightarrow> exn + response"

section \<open>JSON.stringify\<close>

definition hex_digit :: "int \<Rightarrow> jschar" where
  "hex_digit n = (if n < 10 then word_of_int (48 + n) else word_of_int (87 + n))"

definition unicode_escape :: "jschar \<Rightarrow> jstring" where
  "unicode_escape c =
     (let n = uint c
      in [BSLASH, 0x75, hex_digit (n div 4096), hex_digit (n div 256 mod 16),
          hex_digit (n div 16 mod 16), hex_digit (n mod 16)])"

definition is_high_surrogate :: "jschar \<Rightarrow> bool" where
  "is_high_surrogate c = (0xD800 \<le> uint c \<and> uint c \<le> 0xDBFF)"

definition is_low_surrogate :: "jschar \<Rightarrow> bool" where
  "is_low_surrogate c = (0xDC00 \<le> uint c \<and> uint c \<le> 0xDFFF)"

text \<open>One code unit of a string inside \<open>QuoteJSONString\<close>.\<close>

definition escape_unit :: "jschar \<Rightarrow> jstring" where
  "escape_unit c =
     (if c = 0x08 then [BSLASH, 0x62]
      else if c = 0x09 then [BSLASH, 0x74]
      else if c = 0x0A then [BSLASH, 0x6E]
      else if c = 0x0C then [BSLASH, 0x66]
      else if c = 0x0D then [BSLASH, 0x72]
      else if c = DQUOTE then [BSLASH, DQUOTE]
      else if c = BSLASH then [BSLASH, BSLASH]
      else if uint c < 0x20 \<or> is_high_surrogate c \<or> is_low_surrogate c then unicode_escape c
      else [c])"

text \<open>A surrogate pair is copied; a lone surrogate is escaped.\<close>

fun quote_chars :: "jstring \<Rightarrow> jstring" where
  "quote_chars [] = []"
| "quote_chars [c] = escape_unit c"
| "quote_chars (c # d # cs) =
     (if is_high_surrogate c \<and> is_low_surrogate d then c # d # quote_chars cs
      else escape_unit c @ quote_chars (d # cs))"

definition quote :: "jstring \<Rightarrow> jstring" where
  "quote s = DQUOTE # quote_chars s @ [DQUOTE]"

fun join :: "jstring \<Rightarrow> jstring list \<Rightarrow> jstring" where
  "join sep [] = []"
| "join sep [x] = x"
| "join sep (x # y # xs) = x @ sep @ join sep (y # xs)"

primrec stringify :: "'n platform \<Rightarrow> 'n json \<Rightarrow> jstring" where
  "stringify P JNull = js ''null''"
| "stringify P (JBool b) = (if b then js ''true'' else js ''false'')"
| "stringify P (JNumber n) = (if is_finite P n then number_to_string P n else js ''null'')"
| "stringify P (JString s) = quote s"
| "stringify P (JArray xs) = 0x5B # join (js '','') (map (stringify P) xs) @ [0x5D]"
| "stringify P (JObject kvs) =
     0x7B # join (js '','')
              (map (\<lambda>kv. quote (fst kv) @ 0x3A # snd kv) (map (map_prod id (stringify P)) kvs))
       @ [0x7D]"

section \<open>The template helpers\<close>

text \<open>
  The argument of a helper is \<open>None\<close> when the engine passes \<open>undefined\<close> (a name the
  variables do not bind). \<open>JSON.stringify(undefined)\<close> is \<open>undefined\<close>: the \<open>json\<close>
  helper then inserts the text \<open>undefined\<close>, and \<open>jstr\<close> fails on \<open>.slice\<close>.
\<close>

definition json_helper :: "'n platform \<Rightarrow> 'n helper" where
  "json_helper P v =
     (case v of None \<Rightarrow> Inr (js ''undefined'') | Some j \<Rightarrow> Inr (stringify P j))"

definition jstr_helper :: "'n platform \<Rightarrow> 'n helper" where
  "jstr_helper P v =
     (case v of
        None \<Rightarrow> Inl (TypeError (js ''Cannot read properties of undefined (reading 'slice')''))
      | Some j \<Rightarrow> Inr (slice (stringify P j) 1 (- 1)))"


section \<open>JSON.parse\<close>

definition is_json_ws :: "jschar \<Rightarrow> bool" where
  "is_json_ws c = (c = 0x20 \<or> c = 0x09 \<or> c = 0x0A \<or> c = 0x0D)"

definition skip_ws :: "jstring \<Rightarrow> jstring" where
  "skip_ws s = dropWhile is_json_ws s"

definition hex_value :: "jschar \<Rightarrow> int option" where
  "hex_value c =
     (let n = uint c
      in if 0x30 \<le> n \<and> n \<le> 0x39 then Some (n - 0x30)
         else if 0x61 \<le> n \<and> n \<le> 0x66 then Some (n - 0x57)
         else if 0x41 \<le> n \<and> n \<le> 0x46 then Some (n - 0x37)
         else None)"

fun hex4 :: "jstring \<Rightarrow> jschar option" where
  "hex4 (a # b # c # d # r) =
     (case (hex_value a, hex_value b, hex_value c, hex_value d) of
        (Some h3, Some h2, Some h1, Some h0) \<Rightarrow>
          Some (word_of_int (((h3 * 16 + h2) * 16 + h1) * 16 + h0))
      | _ \<Rightarrow> None)"
| "hex4 _ = None"

definition unescape :: "jschar \<Rightarrow> jschar option" where
  "unescape e =
     (if e = DQUOTE then Some DQUOTE
      else if e = BSLASH then Some BSLASH
      else if e = 0x2F then Some 0x2F
      else if e = 0x62 then Some 0x08
      else if e = 0x66 then Some 0x0C
      else if e = 0x6E then Some 0x0A
      else if e = 0x72 then Some 0x0D
      else if e = 0x74 then Some 0x09
      else None)"

definition cons_result :: "jschar \<Rightarrow> (jstring \<times> jstring) option \<Rightarrow> (jstring \<times> jstring) option" where
  "cons_result c r = map_option (\<lambda>(s, t). (c # s, t)) r"

fun string_body :: "jstring \<Rightarrow> (jstring \<times> jstring) option" where
  "string_body [] = None"
| "string_body (c # cs) =
     (if c = DQUOTE then Some ([], cs)
      else if c = BSLASH then
        (case cs of
           [] \<Rightarrow> None
         | e # r \<Rightarrow>
             if e = 0x75 then
               (case hex4 r of None \<Rightarrow> None | Some u \<Rightarrow> cons_result u (string_body (drop 4 r)))
             else (case unescape e of None \<Rightarrow> None | Some u \<Rightarrow> cons_result u (string_body r)))
      else if uint c < 0x20 then None
      else cons_result c (string_body cs))"


lemma string_body_shorter: "string_body s = Some (k, r) \<Longrightarrow> length r < length s"
proof (induction s arbitrary: k r rule: string_body.induct)
  case 1
  then show ?case by simp
next
  case (2 c cs)
  show ?case
  proof (cases "c = DQUOTE")
    case True
    with "2.prems" show ?thesis by simp
  next
    case notq: False
    show ?thesis
    proof (cases "c = BSLASH")
      case True
      with notq "2.prems" "2.IH"(1,2) show ?thesis
        by (fastforce simp: cons_result_def split: list.splits option.splits if_splits)
    next
      case False
      with notq "2.prems" "2.IH"(3) show ?thesis
        by (fastforce simp: cons_result_def split: if_splits)
    qed
  qed
qed

text \<open>The longest prefix that is a JSON number: its text and what follows it.\<close>

definition scan_fraction :: "jstring \<Rightarrow> (jstring \<times> jstring) option" where
  "scan_fraction s =
     (case s of
        [] \<Rightarrow> Some ([], [])
      | c # r \<Rightarrow>
          if c = 0x2E then
            (if takeWhile is_digit r = [] then None
             else Some (c # takeWhile is_digit r, dropWhile is_digit r))
          else Some ([], s))"

definition scan_exponent :: "jstring \<Rightarrow> (jstring \<times> jstring) option" where
  "scan_exponent s =
     (case s of
        [] \<Rightarrow> Some ([], [])
      | c # r \<Rightarrow>
          if c = 0x65 \<or> c = 0x45 then
            (let sg = (if take 1 r = [0x2B] \<or> take 1 r = [0x2D] then take 1 r else []);
                 r1 = drop (length sg) r
             in if takeWhile is_digit r1 = [] then None
                else Some (c # sg @ takeWhile is_digit r1, dropWhile is_digit r1))
          else Some ([], s))"

definition scan_number :: "jstring \<Rightarrow> (jstring \<times> jstring) option" where
  "scan_number s =
     (let sg = (if take 1 s = [0x2D] then take 1 s else []);
          s1 = drop (length sg) s;
          ip = takeWhile is_digit s1
      in if ip = [] \<or> (hd ip = 0x30 \<and> 1 < length ip) then None
         else (case scan_fraction (dropWhile is_digit s1) of
                 None \<Rightarrow> None
               | Some (fr, s3) \<Rightarrow>
                   (case scan_exponent s3 of
                      None \<Rightarrow> None
                    | Some (ex, s4) \<Rightarrow> Some (sg @ ip @ fr @ ex, s4))))"

text \<open>
  Setting a property of an object: an existing key keeps its place; a new key that is an
  array index goes among the array indices, in ascending order, before all other keys;
  any other new key goes last.
\<close>

definition digits_value :: "jstring \<Rightarrow> int" where
  "digits_value k = foldl (\<lambda>a c. 10 * a + (uint c - 48)) 0 k"

definition is_array_index :: "jstring \<Rightarrow> bool" where
  "is_array_index k =
     (k \<noteq> [] \<and> list_all is_digit k \<and> (hd k \<noteq> 0x30 \<or> length k = 1)
      \<and> digits_value k < 4294967295)"

fun replace_value :: "jstring \<Rightarrow> 'v \<Rightarrow> (jstring \<times> 'v) list \<Rightarrow> (jstring \<times> 'v) list" where
  "replace_value k v [] = []"
| "replace_value k v (p # ps) = (if fst p = k then (k, v) # ps else p # replace_value k v ps)"

fun insert_index :: "jstring \<Rightarrow> 'v \<Rightarrow> (jstring \<times> 'v) list \<Rightarrow> (jstring \<times> 'v) list" where
  "insert_index k v [] = [(k, v)]"
| "insert_index k v (p # ps) =
     (if is_array_index (fst p) \<and> digits_value (fst p) < digits_value k
      then p # insert_index k v ps else (k, v) # p # ps)"

definition obj_set :: "(jstring \<times> 'v) list \<Rightarrow> jstring \<Rightarrow> 'v \<Rightarrow> (jstring \<times> 'v) list" where
  "obj_set ps k v =
     (if map_of ps k \<noteq> None then replace_value k v ps
      else if is_array_index k then insert_index k v ps
      else ps @ [(k, v)])"

lemma skip_ws_length: "length (skip_ws s) \<le> length s"
  by (simp add: skip_ws_def length_dropWhile_le)

lemma skip_ws_Cons_length: "skip_ws s = c # r \<Longrightarrow> length r < length s"
  using skip_ws_length [of s] by simp

function parse_value :: "'n platform \<Rightarrow> jstring \<Rightarrow> ('n json \<times> jstring) option"
  and parse_elements :: "'n platform \<Rightarrow> 'n json list \<Rightarrow> jstring \<Rightarrow> ('n json list \<times> jstring) option"
  and parse_members :: "'n platform \<Rightarrow> (jstring \<times> 'n json) list \<Rightarrow> jstring
                          \<Rightarrow> ((jstring \<times> 'n json) list \<times> jstring) option"
where
  "parse_value P s =
     (case s of
        [] \<Rightarrow> None
      | c # cs \<Rightarrow>
          if c = 0x7B then
            (if take 1 (skip_ws cs) = [0x7D] then Some (JObject [], drop 1 (skip_ws cs))
             else map_option (\<lambda>(ps, t). (JObject ps, t)) (parse_members P [] (skip_ws cs)))
          else if c = 0x5B then
            (if take 1 (skip_ws cs) = [0x5D] then Some (JArray [], drop 1 (skip_ws cs))
             else map_option (\<lambda>(xs, t). (JArray xs, t)) (parse_elements P [] (skip_ws cs)))
          else if c = DQUOTE then map_option (\<lambda>(str, t). (JString str, t)) (string_body cs)
          else if c = 0x2D \<or> is_digit c then
            map_option (\<lambda>(lit, t). (JNumber (to_number P lit), t)) (scan_number s)
          else if startsWith s (js ''true'') then Some (JBool True, drop 4 s)
          else if startsWith s (js ''false'') then Some (JBool False, drop 5 s)
          else if startsWith s (js ''null'') then Some (JNull, drop 4 s)
          else None)"
| "parse_elements P acc s =
     (case parse_value P s of
        None \<Rightarrow> None
      | Some (v, r) \<Rightarrow>
          if length r < length s then
            (case skip_ws r of
               [] \<Rightarrow> None
             | c # cs \<Rightarrow>
                 if c = 0x2C then parse_elements P (acc @ [v]) (skip_ws cs)
                 else if c = 0x5D then Some (acc @ [v], cs)
                 else None)
          else None)"
| "parse_members P acc s =
     (case s of
        [] \<Rightarrow> None
      | q # s1 \<Rightarrow>
          if q \<noteq> DQUOTE then None
          else
            (case string_body s1 of
               None \<Rightarrow> None
             | Some (k, s2) \<Rightarrow>
                 (case skip_ws s2 of
                    [] \<Rightarrow> None
                  | colon # s3 \<Rightarrow>
                      if colon \<noteq> 0x3A then None
                      else
                        (case parse_value P (skip_ws s3) of
                           None \<Rightarrow> None
                         | Some (v, s4) \<Rightarrow>
                             if length s4 < length (skip_ws s3) then
                               (case skip_ws s4 of
                                  [] \<Rightarrow> None
                                | c # s5 \<Rightarrow>
                                    if c = 0x2C then parse_members P (obj_set acc k v) (skip_ws s5)
                                    else if c = 0x7D then Some (obj_set acc k v, s5)
                                    else None)
                             else None))))"
  by pat_completeness auto

termination
proof (relation "measure (\<lambda>x. case x of
          Inl (P, s) \<Rightarrow> 2 * length s
        | Inr (Inl (P, acc, s)) \<Rightarrow> 2 * length s + 1
        | Inr (Inr (P, acc, s)) \<Rightarrow> 2 * length s + 1)", goal_cases)
  case 1
  then show ?case by simp
next
  case (2 P s c cs)
  then show ?case using skip_ws_length [of cs] by simp
next
  case (3 P s c cs)
  then show ?case using skip_ws_length [of cs] by simp
next
  case (4 P acc s)
  then show ?case by simp
next
  case (5 P acc s x2 v r c cs)
  then show ?case using skip_ws_Cons_length [of r c cs] skip_ws_length [of cs] by simp
next
  case (6 P acc s q s1 x2 k s2 colon s3)
  then show ?case
    using string_body_shorter [of s1 k s2] skip_ws_Cons_length [of s2 colon s3]
      skip_ws_length [of s3] by simp
next
  case (7 P acc s q s1 x2 k s2 colon s3 x2a v s4 c s5)
  then show ?case
    using string_body_shorter [of s1 k s2] skip_ws_Cons_length [of s2 colon s3]
      skip_ws_length [of s3] skip_ws_Cons_length [of s4 c s5] skip_ws_length [of s5] by simp
qed


declare parse_value.simps [simp del] parse_elements.simps [simp del] parse_members.simps [simp del]

text \<open>
  \<open>JSON.parse(text)\<close>: one value between optional white space, and nothing after it.
  The description carried by the SyntaxError is the platform's.
\<close>

definition JSON_parse :: "'n platform \<Rightarrow> jstring \<Rightarrow> exn + 'n json" where
  "JSON_parse P text =
     (case parse_value P (skip_ws text) of
        None \<Rightarrow> Inl (SyntaxError (syntax_error_message P text))
      | Some (v, r) \<Rightarrow>
          if skip_ws r = [] then Inr v else Inl (SyntaxError (syntax_error_message P text)))"

section \<open>Variables\<close>

text \<open>The test \<open>/^-?\d+(?:\.\d+)?$/\<close> of \<open>coerceValue\<close>.\<close>

definition matches_decimal :: "jstring \<Rightarrow> bool" where
  "matches_decimal raw =
     (let s1 = (if take 1 raw = [0x2D] then drop 1 raw else raw);
          r = dropWhile is_digit s1
      in takeWhile is_digit s1 \<noteq> []
         \<and> (r = [] \<or> (hd r = 0x2E \<and> tl r \<noteq> [] \<and> list_all is_digit (tl r))))"

definition coerceValue :: "'n platform \<Rightarrow> jstring \<Rightarrow> 'n json" where
  "coerceValue P raw =
     (if raw = js ''true'' then JBool True
      else if raw = js ''false'' then JBool False
      else if raw = js ''null'' then JNull
      else if \<not> is_nan P (to_number P raw) \<and> matches_decimal raw then JNumber (to_number P raw)
      else (case JSON_parse P raw of Inr v \<Rightarrow> v | Inl e \<Rightarrow> JString raw))"

text \<open>\<open>input.split(/\r?\n/)\<close>\<close>

fun split_lines :: "jstring \<Rightarrow> jstring list" where
  "split_lines [] = [[]]"
| "split_lines (c # cs) =
     (if c = LF then [] # split_lines cs
      else if c = CR \<and> take 1 cs = [LF] then [] # split_lines (drop 1 cs)
      else (case split_lines cs of l # ls \<Rightarrow> (c # l) # ls | [] \<Rightarrow> [[c]]))"

text \<open>
  \<open>/^(.*?)\s*([=:])\s*(.*)$/\<close> on a line. \<open>kv_tail rest\<close> matches
  \<open>\s*([=:])\s*(.*)$\<close> at the start of \<open>rest\<close> and returns group 3: each \<open>\s*\<close> can only
  take the whole run of white space, as the character after it must not be white space
  (the separator) or must start a run without line terminators that reaches the end.
  \<open>kv_scan\<close> tries group 1 from the shortest prefix on; group 1 holds no line terminator.
\<close>

definition kv_tail :: "jstring \<Rightarrow> jstring option" where
  "kv_tail rest =
     (case dropWhile is_white_space rest of
        [] \<Rightarrow> None
      | c # r \<Rightarrow>
          if c = 0x3D \<or> c = 0x3A then
            (if list_all (\<lambda>d. \<not> is_line_terminator d) (dropWhile is_white_space r)
             then Some (dropWhile is_white_space r) else None)
          else None)"

fun kv_scan :: "jstring \<Rightarrow> jstring \<Rightarrow> (jstring \<times> jstring) option" where
  "kv_scan g1 [] = map_option (\<lambda>g3. (g1, g3)) (kv_tail [])"
| "kv_scan g1 (c # cs) =
     (case kv_tail (c # cs) of
        Some g3 \<Rightarrow> Some (g1, g3)
      | None \<Rightarrow> if is_line_terminator c then None else kv_scan (g1 @ [c]) cs)"

definition re_exec :: "jstring \<Rightarrow> (jstring \<times> jstring) option" where
  "re_exec line = kv_scan [] line"

text \<open>
  The body of the loop over the lines. An assignment \<open>vars[key] = value\<close> whose key is
  \<open>__proto__\<close> reaches the prototype accessor of the object literal and creates no
  property.
\<close>

definition kv_line :: "'n platform \<Rightarrow> (jstring \<times> 'n json) list \<Rightarrow> jstring \<Rightarrow> (jstring \<times> 'n json) list" where
  "kv_line P vars line =
     (case re_exec line of
        None \<Rightarrow> vars
      | Some (m1, m3) \<Rightarrow>
          if trim m1 = js ''__proto__'' then vars
          else obj_set vars (trim m1) (coerceValue P (trim m3)))"

definition parseVariables :: "'n platform \<Rightarrow> jstring option \<Rightarrow> (jstring \<times> 'n json) list" where
  "parseVariables P input =
     (case input of
        None \<Rightarrow> []
      | Some s \<Rightarrow>
          if s = [] \<or> trim s = [] then []
          else
            (case JSON_parse P s of
               Inr (JObject ps) \<Rightarrow> ps
             | _ \<Rightarrow>
                 foldl (kv_line P) []
                   (filter (\<lambda>l. l \<noteq> [] \<and> \<not> startsWith l (js ''#''))
                      (map trim (split_lines s)))))"

section \<open>Building the body\<close>

record 'n BuildResult =
  body :: "'n json"
  interpolated :: jstring

text \<open>The error that the spec calls TemplateRenderError.\<close>

definition TemplateRenderError :: "jstring \<Rightarrow> jstring \<Rightarrow> exn" where
  "TemplateRenderError msg text =
     Error (js ''Interpolated message_template is not valid JSON. Error: '' @ msg
            @ js ''. Content: '' @ text)"

definition buildBodyFromTemplate :: "'n platform \<Rightarrow> jstring \<Rightarrow> jstring option \<Rightarrow> exn + 'n BuildResult" where
  "buildBodyFromTemplate P template variablesInput =
     (let vars = parseVariables P variablesInput
      in case handlebars P [(js ''json'', json_helper P), (js ''jstr'', jstr_helper P)] template vars of
           Inl e \<Rightarrow> Inl e
         | Inr text \<Rightarrow>
             (case JSON_parse P text of
                Inl err \<Rightarrow> Inl (TemplateRenderError (message err) text)
              | Inr b \<Rightarrow> Inr \<lparr>body = b, interpolated = text\<rparr>))"


section \<open>Signing and sending\<close>

definition generateLarkWebhookSignature :: "'n platform \<Rightarrow> jstring \<Rightarrow> int \<Rightarrow> jstring" where
  "generateLarkWebhookSignature P webhookKey timestamp =
     hmac_sha256_base64 P (dec_int timestamp @ LF # webhookKey) []"

text \<open>The error that the spec calls SigningPreconditionError.\<close>

definition SigningPreconditionError :: exn where
  "SigningPreconditionError =
     Error (js ''Signing requires the message_template to be a JSON object to add timestamp and sign fields.'')"

definition is_object :: "'n json \<Rightarrow> bool" where
  "is_object b = (case b of JObject ps \<Rightarrow> True | _ \<Rightarrow> False)"

text \<open>
  The first part of \<open>sendLarkWebhook\<close>: the value of \<open>signedBody\<close> when the request is
  built, or the error thrown before. \<open>!body || typeof body !== 'object' ||
  Array.isArray(body)\<close> holds of every value but an object.
\<close>

definition signedBody :: "'n platform \<Rightarrow> jstring option \<Rightarrow> 'n json \<Rightarrow> exn + 'n json" where
  "signedBody P webhookKey b =
     (let requestTimestamp = date_now P div 1000
      in case webhookKey of
           None \<Rightarrow> Inr b
         | Some k \<Rightarrow>
             if k \<noteq> [] \<and> trim k \<noteq> [] then
               (case b of
                  JObject ps \<Rightarrow>
                    Inr (JObject
                      (obj_set (obj_set ps (js ''timestamp'') (JString (dec_int requestTimestamp)))
                         (js ''sign'') (JString (generateLarkWebhookSignature P k requestTimestamp))))
                | _ \<Rightarrow> Inl SigningPreconditionError)
             else Inr b)"

text \<open>
  The double nearest to an integer (ties to the even significand). \<open>excess_bits n\<close> is
  the number of bits by which \<open>n\<close> exceeds the 53 bits of a significand; beyond the
  largest double the result is an infinity.
\<close>

function excess_bits :: "int \<Rightarrow> nat" where
  "excess_bits n = (if n < 9007199254740992 then 0 else Suc (excess_bits (n div 2)))"
  by pat_completeness auto
termination
  by (relation "measure nat") auto

declare excess_bits.simps [simp del]

definition to_double :: "int \<Rightarrow> jsnum" where
  "to_double z =
     (let n = \<bar>z\<bar>;
          e = excess_bits n;
          q = n div 2 ^ e;
          r = n mod 2 ^ e;
          q' = (if 2 ^ e < 2 * r \<or> (2 * r = 2 ^ e \<and> odd q) then q + 1 else q);
          m = q' * 2 ^ e
      in if 2 ^ 1024 \<le> m then (if z < 0 then JsNegInfinity else JsInfinity)
         else JsInt (if z < 0 then - m else m))"

text \<open>
  \<open>parseInt(s, 10)\<close>: leading white space, a sign, then the longest run of digits;
  whatever follows is ignored. \<open>mathInt\<close> is the integer that these digits denote,
  and the result is the Number for it, NaN when there is no digit.
\<close>

definition mathInt :: "jstring \<Rightarrow> int option" where
  "mathInt s =
     (let t = dropWhile is_white_space s;
          neg = (take 1 t = [0x2D]);
          u = (if take 1 t = [0x2D] \<or> take 1 t = [0x2B] then drop 1 t else t);
          ds = takeWhile is_digit u
      in if ds = [] then None
         else Some (if neg then - digits_value ds else digits_value ds))"

definition parseInt :: "jstring \<Rightarrow> jsnum" where
  "parseInt s = (case mathInt s of None \<Rightarrow> JsNaN | Some z \<Rightarrow> to_double z)"

text \<open>A Number in a condition: NaN and zero count as false.\<close>

definition truthy :: "jsnum \<Rightarrow> bool" where
  "truthy x = (x \<noteq> JsNaN \<and> x \<noteq> JsInt 0)"

text \<open>What \<open>sendLarkWebhook\<close> does: the line it logs, the request it hands to \<open>fetch\<close>,
  and the response or the error.\<close>

record send_result =
  sr_console :: "jstring list"
  sr_sent :: "request list"
  sr_outcome :: "exn + response"

definition sendLarkWebhook :: "'n platform \<Rightarrow> jstring \<Rightarrow> jstring option \<Rightarrow> 'n json \<Rightarrow> jsnum option \<Rightarrow> send_result" where
  "sendLarkWebhook P webhookUrl webhookKey b timeoutMs =
     (case signedBody P webhookKey b of
        Inl e \<Rightarrow> \<lparr>sr_console = [], sr_sent = [], sr_outcome = Inl e\<rparr>
      | Inr sb \<Rightarrow>
          (let timeout = (case timeoutMs of None \<Rightarrow> None | Some x \<Rightarrow> if truthy x then Some x else None);
               req = \<lparr>req_url = webhookUrl, req_method = js ''POST'',
                      req_headers = [(js ''Content-Type'', js ''application/json; charset=utf-8'')],
                      req_body = stringify P sb, req_abort_after = timeout\<rparr>
           in \<lparr>sr_console = [stringify P sb], sr_sent = [req], sr_outcome = fetch P req\<rparr>))"

section \<open>The action\<close>

text \<open>
  \<open>core.getInput\<close> and \<open>core.getBooleanInput\<close> of the actions toolkit, over the inputs
  the runner passes (\<open>None\<close> for an input that is not set).
\<close>

definition getInput :: "(jstring \<Rightarrow> jstring option) \<Rightarrow> jstring \<Rightarrow> bool \<Rightarrow> exn + jstring" where
  "getInput env name required =
     (let val = (case env name of None \<Rightarrow> [] | Some v \<Rightarrow> v)
      in if required \<and> val = [] then Inl (Error (js ''Input required and not supplied: '' @ name))
         else Inr (trim val))"

definition getBooleanInput :: "(jstring \<Rightarrow> jstring option) \<Rightarrow> jstring \<Rightarrow> exn + bool" where
  \<open>getBooleanInput env name =
     (case getInput env name False of
        Inl e \<Rightarrow> Inl e
      | Inr val \<Rightarrow>
          if val = js ''true'' \<or> val = js ''True'' \<or> val = js ''TRUE'' then Inr True
          else if val = js ''false'' \<or> val = js ''False'' \<or> val = js ''FALSE'' then Inr False
          else Inl (TypeError
                 (js ''Input does not meet YAML 1.2 "Core Schema" specification: '' @ name
                  @ LF # js ''Support boolean input list: `true | True | TRUE | false | False | FALSE`'')))\<close>

datatype output_value = OutBool bool | OutNum int | OutStr jstring

record action_state =
  debug_log :: "jstring list"
  info_log :: "jstring list"
  console_log :: "jstring list"
  outputs :: "(jstring \<times> output_value) list"
  failed :: "jstring option"
  sent :: "request list"

definition initial_state :: action_state where
  "initial_state = \<lparr>debug_log = [], info_log = [], console_log = [], outputs = [],
                     failed = None, sent = []\<rparr>"

definition debug :: "jstring \<Rightarrow> action_state \<Rightarrow> action_state" where
  "debug m st = st\<lparr>debug_log := debug_log st @ [m]\<rparr>"

definition info :: "jstring \<Rightarrow> action_state \<Rightarrow> action_state" where
  "info m st = st\<lparr>info_log := info_log st @ [m]\<rparr>"

definition setOutput :: "jstring \<Rightarrow> output_value \<Rightarrow> action_state \<Rightarrow> action_state" where
  "setOutput name v st = st\<lparr>outputs := outputs st @ [(name, v)]\<rparr>"

definition setFailed :: "jstring \<Rightarrow> action_state \<Rightarrow> action_state" where
  "setFailed m st = st\<lparr>failed := Some m\<rparr>"

record inputs =
  webhookUrl :: jstring
  webhookSecret :: jstring
  template :: jstring
  variablesInput :: jstring
  dryRun :: bool
  timeoutMsInput :: jstring
  failOnHttpError :: bool

definition bind :: "exn + 'a \<Rightarrow> ('a \<Rightarrow> exn + 'b) \<Rightarrow> exn + 'b" where
  "bind m f = (case m of Inl e \<Rightarrow> Inl e | Inr x \<Rightarrow> f x)"

definition read_inputs :: "(jstring \<Rightarrow> jstring option) \<Rightarrow> exn + inputs" where
  "read_inputs env =
     bind (getInput env (js ''webhook_url'') True) (\<lambda>url.
     bind (getInput env (js ''webhook_secret'') False) (\<lambda>secret.
     bind (getInput env (js ''message_template'') True) (\<lambda>tpl.
     bind (getInput env (js ''variables'') False) (\<lambda>vars.
     bind (getBooleanInput env (js ''dry_run'')) (\<lambda>dry.
     bind (getInput env (js ''request_timeout_ms'') False) (\<lambda>tmo.
     bind (getBooleanInput env (js ''fail_on_http_error'')) (\<lambda>fail.
     Inr \<lparr>webhookUrl = url, webhookSecret = secret, template = tpl, variablesInput = vars,
          dryRun = dry, timeoutMsInput = tmo, failOnHttpError = fail\<rparr>)))))))"

definition run :: "'n platform \<Rightarrow> (jstring \<Rightarrow> jstring option) \<Rightarrow> action_state" where
  "run P env =
     (case read_inputs env of
        Inl e \<Rightarrow> setFailed (message e) initial_state
      | Inr i \<Rightarrow>
          (let timeoutMs = (if timeoutMsInput i \<noteq> [] then Some (parseInt (timeoutMsInput i)) else None);
               st1 = debug (js ''Building Lark message body from template and variables'') initial_state
           in case buildBodyFromTemplate P (template i) (Some (variablesInput i)) of
                Inl e \<Rightarrow> setFailed (message e) st1
              | Inr built \<Rightarrow>
                  if dryRun i then
                    setOutput (js ''response_text'') (OutStr (js ''dry_run''))
                      (setOutput (js ''status'') (OutNum 0)
                        (setOutput (js ''ok'') (OutBool True)
                          (info (interpolated built)
                            (info (js ''[dry_run] Skipping webhook call. Interpolated JSON:'') st1))))
                  else
                    (let st2 = debug (js ''Sending Lark webhook request'') st1;
                         sr = sendLarkWebhook P (webhookUrl i) (Some (webhookSecret i)) (body built) timeoutMs;
                         st3 = st2\<lparr>console_log := console_log st2 @ sr_console sr,
                                   sent := sent st2 @ sr_sent sr\<rparr>
                     in case sr_outcome sr of
                          Inl e \<Rightarrow> setFailed (message e) st3
                        | Inr res \<Rightarrow>
                            (case resp_text res of
                               Inl e \<Rightarrow> setFailed (message e) st3
                             | Inr text \<Rightarrow>
                                 (let st4 = setOutput (js ''response_text'') (OutStr text)
                                              (setOutput (js ''status'') (OutNum (resp_status res))
                                                (setOutput (js ''ok'') (OutBool (resp_ok res)) st3))
                                  in if \<not> resp_ok res \<and> failOnHttpError i then
                                       setFailed (js ''Lark webhook failed with status ''
                                                  @ dec_int (resp_status res) @ js '': '' @ text) st4
                                     else st4)))))"


section \<open>The templating engine\<close>

text \<open>
  Modelled from the spec: the templating engine (Handlebars, a library outside the
  sources of this repository), as the spec describes it: interpolation of a variable by
  name or dotted path, an unknown path rendering as the empty string, no escaping of the
  inserted text, and a helper applied to one variable. The model covers templates made of
  text and of expressions \<open>{{path}}\<close> and \<open>{{helper path}}\<close>; it rejects every other
  construct of the engine (blocks, comments, partials, literals, escaped braces).
  The template is parsed as a whole before anything is rendered.
\<close>

datatype segment = Chr jschar | Mustache "jstring list"

fun split_where :: "(jschar \<Rightarrow> bool) \<Rightarrow> jstring \<Rightarrow> jstring list" where
  "split_where p [] = [[]]"
| "split_where p (c # cs) =
     (if p c then [] # split_where p cs
      else (case split_where p cs of l # ls \<Rightarrow> (c # l) # ls | [] \<Rightarrow> [[c]]))"

definition words :: "jstring \<Rightarrow> jstring list" where
  "words s = filter (\<lambda>w. w \<noteq> []) (split_where is_white_space s)"

definition is_id_char :: "jschar \<Rightarrow> bool" where
  "is_id_char c =
     ((0x61 \<le> uint c \<and> uint c \<le> 0x7A) \<or> (0x41 \<le> uint c \<and> uint c \<le> 0x5A)
      \<or> is_digit c \<or> c = 0x5F)"

definition reserved_words :: "jstring list" where
  "reserved_words = map js [''this'', ''true'', ''false'', ''null'', ''undefined'', ''else'',
     ''if'', ''unless'', ''each'', ''with'', ''lookup'', ''log'', ''helperMissing'',
     ''blockHelperMissing'']"

definition is_path :: "jstring \<Rightarrow> bool" where
  "is_path w =
     list_all (\<lambda>seg. seg \<noteq> [] \<and> list_all is_id_char seg \<and> \<not> is_digit (hd seg)
                     \<and> seg \<notin> set reserved_words)
       (split_where (\<lambda>c. c = 0x2E) w)"

fun find_close :: "jstring \<Rightarrow> (jstring \<times> jstring) option" where
  "find_close (c # d # cs) =
     (if c = 0x7D \<and> d = 0x7D then Some ([], cs) else cons_result c (find_close (d # cs)))"
| "find_close _ = None"

lemma find_close_shorter: "find_close s = Some (inner, rest) \<Longrightarrow> length rest < length s"
  by (induction s arbitrary: inner rest rule: find_close.induct)
     (fastforce simp: cons_result_def split: if_splits)+

function hb_parse :: "jstring \<Rightarrow> exn + segment list" where
  "hb_parse [] = Inr []"
| "hb_parse (c # cs) =
     (if c = 0x7B \<and> take 1 cs = [0x7B] then
        (case find_close (drop 1 cs) of
           None \<Rightarrow> Inl (Error (js ''Parse error''))
         | Some (inner, rest) \<Rightarrow>
             if words inner \<noteq> [] \<and> list_all is_path (words inner) then
               (case hb_parse rest of
                  Inl e \<Rightarrow> Inl e
                | Inr segs \<Rightarrow> Inr (Mustache (words inner) # segs))
             else Inl (Error (js ''Parse error'')))
      else if c = BSLASH \<and> take 2 cs = [0x7B, 0x7B] then Inl (Error (js ''Parse error''))
      else (case hb_parse cs of Inl e \<Rightarrow> Inl e | Inr segs \<Rightarrow> Inr (Chr c # segs)))"
  by pat_completeness auto
termination
proof (relation "measure length", goal_cases)
  case 1
  then show ?case by simp
next
  case (2 c cs x2 inner rest)
  then show ?case using find_close_shorter [of "drop 1 cs" inner rest] by simp
next
  case (3 c cs)
  then show ?case by simp
qed

fun lookup_path :: "'n json option \<Rightarrow> jstring list \<Rightarrow> 'n json option" where
  "lookup_path v [] = v"
| "lookup_path v (seg # segs) =
     (case v of Some (JObject ps) \<Rightarrow> lookup_path (map_of ps seg) segs | _ \<Rightarrow> None)"

definition hb_lookup :: "(jstring \<times> 'n json) list \<Rightarrow> jstring \<Rightarrow> 'n json option" where
  "hb_lookup vars path = lookup_path (Some (JObject vars)) (split_where (\<lambda>c. c = 0x2E) path)"

text \<open>The text of a value that is inserted without a helper (\<open>String(value)\<close>).\<close>

primrec to_text :: "('n \<Rightarrow> jstring) \<Rightarrow> 'n json \<Rightarrow> jstring" where
  "to_text nts JNull = []"
| "to_text nts (JBool b) = (if b then js ''true'' else js ''false'')"
| "to_text nts (JNumber n) = nts n"
| "to_text nts (JString s) = s"
| "to_text nts (JArray xs) = join (js '','') (map (to_text nts) xs)"
| "to_text nts (JObject ps) = js ''[object Object]''"

definition exec_mustache :: "('n \<Rightarrow> jstring) \<Rightarrow> (jstring \<times> 'n helper) list \<Rightarrow> (jstring \<times> 'n json) list
    \<Rightarrow> jstring list \<Rightarrow> exn + jstring" where
  \<open>exec_mustache nts helpers vars ws =
     (case ws of
        [] \<Rightarrow> Inl (Error (js ''Parse error''))
      | [w] \<Rightarrow>
          if map_of helpers w \<noteq> None then Inl (Error (js ''Parse error''))
          else (case hb_lookup vars w of None \<Rightarrow> Inr [] | Some v \<Rightarrow> Inr (to_text nts v))
      | h # a # r \<Rightarrow>
          (case map_of helpers h of
             None \<Rightarrow> Inl (Error (js ''Missing helper: "'' @ h @ js ''"''))
           | Some f \<Rightarrow> f (hb_lookup vars a)))\<close>

fun hb_exec :: "('n \<Rightarrow> jstring) \<Rightarrow> (jstring \<times> 'n helper) list \<Rightarrow> (jstring \<times> 'n json) list
    \<Rightarrow> segment list \<Rightarrow> exn + jstring" where
  "hb_exec nts helpers vars [] = Inr []"
| "hb_exec nts helpers vars (Chr c # segs) =
     (case hb_exec nts helpers vars segs of Inl e \<Rightarrow> Inl e | Inr t \<Rightarrow> Inr (c # t))"
| "hb_exec nts helpers vars (Mustache ws # segs) =
     (case exec_mustache nts helpers vars ws of
        Inl e \<Rightarrow> Inl e
      | Inr out \<Rightarrow>
          (case hb_exec nts helpers vars segs of Inl e \<Rightarrow> Inl e | Inr t \<Rightarrow> Inr (out @ t)))"

definition hb_model :: "('n \<Rightarrow> jstring) \<Rightarrow> (jstring \<times> 'n helper) list \<Rightarrow> jstring
    \<Rightarrow> (jstring \<times> 'n json) list \<Rightarrow> exn + jstring" where
  "hb_model nts helpers tpl vars =
     (case hb_parse tpl of Inl e \<Rightarrow> Inl e | Inr segs \<Rightarrow> hb_exec nts helpers vars segs)"

section \<open>A platform to evaluate examples on\<close>

text \<open>
  Its numbers are the integers, with \<open>None\<close> for NaN: it agrees with JavaScript on the
  decimal integer literals below \<open>2^53\<close> in magnitude. Its engine is the model above, its
  clock shows 1700000000000 ms, its \<open>fetch\<close> answers every request with status 200 and
  the text \<open>ok\<close>, and its HMAC returns the key and the message it was given, so that an
  example shows what was signed.
\<close>

definition int_to_number :: "jstring \<Rightarrow> int option" where
  "int_to_number s =
     (let t = trim s;
          u = (if take 1 t = [0x2D] \<or> take 1 t = [0x2B] then drop 1 t else t)
      in if t = [] then Some 0
         else if u \<noteq> [] \<and> list_all is_digit u then
           Some (if take 1 t = [0x2D] then - digits_value u else digits_value u)
         else None)"

definition example_platform :: "int option platform" where
  "example_platform =
     \<lparr>to_number = int_to_number,
      is_nan = (\<lambda>n. n = None),
      is_finite = (\<lambda>n. n \<noteq> None),
      number_to_string = (\<lambda>n. case n of None \<Rightarrow> js ''NaN'' | Some i \<Rightarrow> dec_int i),
      syntax_error_message = (\<lambda>text. js ''Unexpected token''),
      handlebars = hb_model (\<lambda>n. case n of None \<Rightarrow> js ''NaN'' | Some i \<Rightarrow> dec_int i),
      hmac_sha256_base64 = (\<lambda>key msg. js ''hmac('' @ key @ js '','' @ msg @ js '')''),
      date_now = 1700000000000,
      fetch = (\<lambda>req. Inr \<lparr>resp_ok = True, resp_status = 200, resp_text = Inr (js ''ok'')\<rparr>)\<rparr>"

definition example_env :: "(string \<times> string) list \<Rightarrow> jstring \<Rightarrow> jstring option" where
  "example_env kvs name = map_of (map (\<lambda>(k, v). (js k, js v)) kvs) name"

text \<open>The state in which a dry run that rendered \<open>text\<close> ends.\<close>

definition dry_run_state :: "jstring \<Rightarrow> action_state" where
  "dry_run_state text =
     \<lparr>debug_log = [js ''Building Lark message body from template and variables''],
      info_log = [js ''[dry_run] Skipping webhook call. Interpolated JSON:'', text],
      console_log = [],
      outputs = [(js ''ok'', OutBool True), (js ''status'', OutNum 0),
                 (js ''response_text'', OutStr (js ''dry_run''))],
      failed = None, sent = []\<rparr>"


section \<open>The \<open>jstr\<close> helper\<close>


text \<open>
  C3. The \<open>jstr\<close> helper is to insert the JSON serialization of a value without its
  enclosing double quotes and to remove no other character. The code departs from this
  on every value that is not a string: it removes the first and the last character of
  the serialization, whatever they are. On the variables \<open>flag=true\<close> and \<open>n=42\<close>
  it inserts \<open>ru\<close> for \<open>flag\<close> and nothing for \<open>n\<close>.
\<close>

theorem jstr_mangles_non_strings:
  \<open>stringify example_platform (JBool True) = js ''true''
   \<and> jstr_helper example_platform (Some (JBool True)) = Inr (js ''ru'')
   \<and> stringify example_platform (JNumber (Some 42)) = js ''42''
   \<and> jstr_helper example_platform (Some (JNumber (Some 42))) = Inr []
   \<and> buildBodyFromTemplate example_platform (js ''{"t":"{{jstr flag}}","n":"{{jstr n}}"}'')
        (Some (js ''flag=true'' @ LF # js ''n=42''))
      = Inr \<lparr>body = JObject [(js ''t'', JString (js ''ru'')), (js ''n'', JString [])],
             interpolated = js ''{"t":"ru","n":""}''\<rparr>\<close>
  by code_simp

section \<open>Signing\<close>

lemma map_of_replace_value:
  "map_of (replace_value k v ps) k' = (if k' = k \<and> map_of ps k \<noteq> None then Some v else map_of ps k')"
  by (induction ps) auto

lemma map_of_insert_index:
  "map_of ps k = None \<Longrightarrow> map_of (insert_index k v ps) k' = (if k' = k then Some v else map_of ps k')"
  by (induction ps) (auto split: if_splits)

lemma map_of_obj_set: "map_of (obj_set ps k v) k' = (if k' = k then Some v else map_of ps k')"
  by (auto simp: obj_set_def map_of_replace_value map_of_insert_index map_add_def
           split: option.splits)

lemma uint_small: "0 \<le> n \<Longrightarrow> n < 65536 \<Longrightarrow> uint (word_of_int n :: 16 word) = n"
  by (simp add: uint_word_of_int)

lemma uint_digit: "0 \<le> d \<Longrightarrow> d < 10 \<Longrightarrow> uint (48 + word_of_int d :: 16 word) = 48 + d"
proof -
  assume "0 \<le> d" "d < 10"
  then have "uint (word_of_int (48 + d) :: 16 word) = 48 + d"
    by (intro uint_small) auto
  then show ?thesis by simp
qed

lemma digits_value_snoc: "digits_value (xs @ [c]) = 10 * digits_value xs + (uint c - 48)"
  by (simp add: digits_value_def)

lemma dec_digits_props:
  "0 \<le> n \<Longrightarrow> dec_digits n \<noteq> [] \<and> list_all is_digit (dec_digits n) \<and> digits_value (dec_digits n) = n"
proof (induction n rule: dec_digits.induct)
  case (1 n)
  show ?case
  proof (cases "n < 10")
    case True
    with "1.prems" show ?thesis
      by (subst (1 2 3) dec_digits.simps) (simp add: is_digit_def digits_value_def uint_digit)
  next
    case False
    with "1.prems" have ih: "dec_digits (n div 10) \<noteq> [] \<and> list_all is_digit (dec_digits (n div 10))
        \<and> digits_value (dec_digits (n div 10)) = n div 10"
      using "1.IH" by simp
    have m: "0 \<le> n mod 10" "n mod 10 < 10" by simp_all
    from False ih m show ?thesis
      by (subst (1 2 3) dec_digits.simps) (simp add: digits_value_snoc is_digit_def uint_digit)
  qed
qed

lemma digit_not_space: "is_digit c \<Longrightarrow> \<not> is_white_space c \<and> c \<noteq> 0x2D \<and> c \<noteq> 0x2B"
  by (auto simp: is_digit_def is_white_space_def is_line_terminator_def)

lemma takeWhile_all: "list_all p xs \<Longrightarrow> takeWhile p xs = xs"
  by (induction xs) auto

lemma mathInt_digits:
  assumes "ds \<noteq> []" "list_all is_digit ds"
  shows "mathInt ds = Some (digits_value ds)" "mathInt (0x2D # ds) = Some (- digits_value ds)"
proof -
  from assms obtain d r where ds: "ds = d # r" by (cases ds) auto
  with assms have d: "is_digit d" by simp
  from d digit_not_space [of d] assms show "mathInt ds = Some (digits_value ds)"
    by (simp add: mathInt_def ds Let_def takeWhile_all)
  have "\<not> is_white_space (0x2D :: jschar)"
    by (simp add: is_white_space_def is_line_terminator_def)
  with assms show "mathInt (0x2D # ds) = Some (- digits_value ds)"
    by (simp add: mathInt_def Let_def takeWhile_all)
qed

lemma mathInt_dec_int: "mathInt (dec_int n) = Some n"
proof (cases "n < 0")
  case True
  then have "0 \<le> - n" by simp
  from dec_digits_props [OF this] True show ?thesis
    by (simp add: dec_int_def mathInt_digits(2))
next
  case False
  then have "0 \<le> n" by simp
  from dec_digits_props [OF this] False show ?thesis
    by (simp add: dec_int_def mathInt_digits(1))
qed

text \<open>
  C4. For every secret and every integer \<open>nowSeconds\<close> the signature is the platform's
  base64 of HMAC-SHA256 with the key made of the decimal string of \<open>nowSeconds\<close>, a
  newline and the secret, over the empty message. \<open>dec_int\<close> is the decimal string:
  it denotes that integer (\<open>mathInt\<close>). The signature is a function of the secret
  and \<open>nowSeconds\<close> alone; for the secret \<open>abc\<close> at 1700000000 the key is
  \<open>1700000000\nabc\<close>.
\<close>

theorem signature_is_hmac:
  "generateLarkWebhookSignature P secret nowSeconds
     = hmac_sha256_base64 P (dec_int nowSeconds @ LF # secret) []
   \<and> mathInt (dec_int nowSeconds) = Some nowSeconds
   \<and> generateLarkWebhookSignature P (js ''abc'') 1700000000
     = hmac_sha256_base64 P (js ''1700000000'' @ LF # js ''abc'') []"
proof -
  have "dec_int 1700000000 = js ''1700000000''" by code_simp
  then show ?thesis
    by (simp add: generateLarkWebhookSignature_def mathInt_dec_int)
qed

theorem signature_is_hmac_witness:
  "generateLarkWebhookSignature example_platform (js ''s3cret'') 1762138800
     = hmac_sha256_base64 example_platform (js ''1762138800'' @ LF # js ''s3cret'') []"
proof -
  have "dec_int 1762138800 = js ''1762138800''" by code_simp
  with signature_is_hmac [of example_platform "js ''s3cret''" 1762138800] show ?thesis
    by simp
qed

lemma trim_Nil: "trim [] = []"
  by (simp add: trim_def)


text \<open>
  C5. With a secret that is not blank, a body that is not an object (a list or a scalar)
  makes signing fail with the SigningPreconditionError, and nothing is sent. With a
  secret that is absent, empty or only white space, the body of every type is passed on
  unchanged and is what is sent.
\<close>

theorem signing_precondition:
  "(trim k \<noteq> [] \<and> \<not> is_object b \<longrightarrow>
      signedBody P (Some k) b = Inl SigningPreconditionError
      \<and> sendLarkWebhook P url (Some k) b t
          = \<lparr>sr_console = [], sr_sent = [], sr_outcome = Inl SigningPreconditionError\<rparr>)
   \<and> ((\<forall>k'. secret = Some k' \<longrightarrow> trim k' = []) \<longrightarrow>
      signedBody P secret b = Inr b
      \<and> map req_body (sr_sent (sendLarkWebhook P url secret b t)) = [stringify P b])"
proof (intro conjI impI)
  assume a: "trim k \<noteq> [] \<and> \<not> is_object b"
  then have k: "k \<noteq> []" using trim_Nil by auto
  from a k show s: "signedBody P (Some k) b = Inl SigningPreconditionError"
    by (cases b) (simp_all add: signedBody_def is_object_def)
  show "sendLarkWebhook P url (Some k) b t
          = \<lparr>sr_console = [], sr_sent = [], sr_outcome = Inl SigningPreconditionError\<rparr>"
    by (simp add: sendLarkWebhook_def s)
next
  assume a: "\<forall>k'. secret = Some k' \<longrightarrow> trim k' = []"
  then show s: "signedBody P secret b = Inr b"
    by (cases secret) (simp_all add: signedBody_def)
  show "map req_body (sr_sent (sendLarkWebhook P url secret b t)) = [stringify P b]"
    by (simp add: sendLarkWebhook_def s Let_def)
qed

theorem signing_precondition_witness:
  "signedBody example_platform (Some (js ''abc'')) (JArray [JNumber (Some 1)])
     = Inl SigningPreconditionError
   \<and> signedBody example_platform (Some (js ''abc'')) (JString (js ''hi''))
     = Inl SigningPreconditionError
   \<and> signedBody example_platform (Some (js ''  '')) (JArray [JNumber (Some 1)])
     = Inr (JArray [JNumber (Some 1)])
   \<and> signedBody example_platform None (JNumber (Some 7)) = Inr (JNumber (Some 7))"
proof -
  have k: "trim (js ''abc'') \<noteq> []" by code_simp
  have "trim (js ''  '') = []" by code_simp
  then have e: "\<forall>k'. Some (js ''  '') = Some k' \<longrightarrow> trim k' = []" by simp
  have n: "\<forall>k'. (None :: jstring option) = Some k' \<longrightarrow> trim k' = []" by simp
  have o1: "trim (js ''abc'') \<noteq> [] \<and> \<not> is_object (JArray [JNumber (Some (1::int))])"
    using k by (simp add: is_object_def)
  have o2: "trim (js ''abc'') \<noteq> [] \<and> \<not> is_object (JString (js ''hi'') :: int option json)"
    using k by (simp add: is_object_def)
  have 1: "signedBody example_platform (Some (js ''abc'')) (JArray [JNumber (Some 1)])
             = Inl SigningPreconditionError"
    using signing_precondition [of "js ''abc''" "JArray [JNumber (Some 1)]" example_platform "[]" None None] o1
    by blast
  have 2: "signedBody example_platform (Some (js ''abc'')) (JString (js ''hi''))
             = Inl SigningPreconditionError"
    using signing_precondition [of "js ''abc''" "JString (js ''hi'')" example_platform "[]" None None] o2
    by blast
  have 3: "signedBody example_platform (Some (js ''  '')) (JArray [JNumber (Some 1)])
             = Inr (JArray [JNumber (Some 1)])"
    using signing_precondition [of "[]" "JArray [JNumber (Some 1)]" example_platform "[]" None "Some (js ''  '')"] e
    by blast
  have 4: "signedBody example_platform None (JNumber (Some 7)) = Inr (JNumber (Some 7))"
    using signing_precondition [of "[]" "JNumber (Some 7)" example_platform "[]" None None] n
    by blast
  from 1 2 3 4 show ?thesis by blast
qed

lemma js_timestamp_sign: "js ''timestamp'' \<noteq> js ''sign''"
  by (simp add: js_def)


text \<open>
  C6. For every object body, every secret that is not blank and every clock value,
  signing returns an object whose field \<open>timestamp\<close> is the decimal string of the seconds
  and whose field \<open>sign\<close> is the computed signature, whatever the body held under these
  two names; every other field is as in the body. This object is what is sent.
\<close>

theorem signed_body_fields:
  assumes "trim k \<noteq> []"
  shows "\<exists>qs. signedBody P (Some k) (JObject ps) = Inr (JObject qs)
     \<and> map_of qs (js ''timestamp'') = Some (JString (dec_int (date_now P div 1000)))
     \<and> map_of qs (js ''sign'')
         = Some (JString (generateLarkWebhookSignature P k (date_now P div 1000)))
     \<and> (\<forall>f. f \<noteq> js ''timestamp'' \<and> f \<noteq> js ''sign'' \<longrightarrow> map_of qs f = map_of ps f)
     \<and> map req_body (sr_sent (sendLarkWebhook P url (Some k) (JObject ps) t))
         = [stringify P (JObject qs)]"
proof -
  from assms have k: "k \<noteq> []" using trim_Nil by auto
  let ?qs = "obj_set (obj_set ps (js ''timestamp'') (JString (dec_int (date_now P div 1000))))
               (js ''sign'') (JString (generateLarkWebhookSignature P k (date_now P div 1000)))"
  have s: "signedBody P (Some k) (JObject ps) = Inr (JObject ?qs)"
    using assms k by (simp add: signedBody_def Let_def)
  have 1: "map_of ?qs (js ''timestamp'') = Some (JString (dec_int (date_now P div 1000)))"
    by (simp only: map_of_obj_set js_timestamp_sign if_False if_True simp_thms)
  have 2: "map_of ?qs (js ''sign'')
             = Some (JString (generateLarkWebhookSignature P k (date_now P div 1000)))"
    by (simp only: map_of_obj_set if_True simp_thms)
  have 3: "\<forall>f. f \<noteq> js ''timestamp'' \<and> f \<noteq> js ''sign'' \<longrightarrow> map_of ?qs f = map_of ps f"
    by (simp only: map_of_obj_set) simp
  have 4: "map req_body (sr_sent (sendLarkWebhook P url (Some k) (JObject ps) t))
             = [stringify P (JObject ?qs)]"
    unfolding sendLarkWebhook_def s by (simp add: Let_def)
  show ?thesis
    by (rule exI [of _ ?qs]) (intro conjI s 1 2 3 4)
qed

theorem signed_body_fields_witness:
  "trim (js ''abc'') \<noteq> []
   \<and> (\<exists>qs. signedBody example_platform (Some (js ''abc''))
              (JObject [(js ''a'', JNumber (Some 1)), (js ''timestamp'', JNumber (Some 5))])
            = Inr (JObject qs)
         \<and> map_of qs (js ''timestamp'') = Some (JString (js ''1700000000''))
         \<and> map_of qs (js ''a'') = Some (JNumber (Some 1)))"
proof -
  have k: "trim (js ''abc'') \<noteq> []" by code_simp
  have d: "dec_int (date_now example_platform div 1000) = js ''1700000000''" by code_simp
  have a: "js ''a'' \<noteq> js ''timestamp'' \<and> js ''a'' \<noteq> js ''sign''" by (simp add: js_def)
  have m: "map_of [(js ''a'', JNumber (Some (1::int))), (js ''timestamp'', JNumber (Some 5))] (js ''a'')
             = Some (JNumber (Some 1))" by simp
  from signed_body_fields [OF k, of example_platform
      "[(js ''a'', JNumber (Some 1)), (js ''timestamp'', JNumber (Some 5))]" "[]" None]
  obtain qs where q: "signedBody example_platform (Some (js ''abc''))
              (JObject [(js ''a'', JNumber (Some 1)), (js ''timestamp'', JNumber (Some 5))])
            = Inr (JObject qs)"
      "map_of qs (js ''timestamp'') = Some (JString (dec_int (date_now example_platform div 1000)))"
      "\<forall>f. f \<noteq> js ''timestamp'' \<and> f \<noteq> js ''sign'' \<longrightarrow>
           map_of qs f = map_of [(js ''a'', JNumber (Some 1)), (js ''timestamp'', JNumber (Some 5))] f"
    by blast
  from q(3) a have "map_of qs (js ''a'')
      = map_of [(js ''a'', JNumber (Some 1)), (js ''timestamp'', JNumber (Some 5))] (js ''a'')"
    by blast
  with m have 3: "map_of qs (js ''a'') = Some (JNumber (Some 1))" by (simp only:)
  from q(2) d have 2: "map_of qs (js ''timestamp'') = Some (JString (js ''1700000000''))"
    by (simp only:)
  from q(1) 2 3 k show ?thesis by blast
qed

section \<open>Validation of the rendered text\<close>

lemma JSON_parse_Inl: "JSON_parse P text = Inl e \<Longrightarrow> e = SyntaxError (syntax_error_message P text)"
  by (auto simp: JSON_parse_def split: option.splits if_splits)


text \<open>
  C7. Let the engine render the text \<open>text\<close>. If \<open>text\<close> is not valid JSON
  (\<open>JSON.parse\<close> throws), building the body fails with the TemplateRenderError, whose
  message holds the description of the parse error and then the whole rendered text,
  unchanged. If \<open>text\<close> is valid JSON, the body is its decoding and nothing is raised.
\<close>

theorem validation_outcome:
  assumes "handlebars P [(js ''json'', json_helper P), (js ''jstr'', jstr_helper P)] tpl
             (parseVariables P vin) = Inr text"
  shows "((\<forall>v. JSON_parse P text \<noteq> Inr v) \<longrightarrow>
            buildBodyFromTemplate P tpl vin
              = Inl (TemplateRenderError (syntax_error_message P text) text))
     \<and> (\<forall>v. JSON_parse P text = Inr v \<longrightarrow>
            buildBodyFromTemplate P tpl vin = Inr \<lparr>body = v, interpolated = text\<rparr>)
     \<and> message (TemplateRenderError d text)
         = js ''Interpolated message_template is not valid JSON. Error: '' @ d
           @ js ''. Content: '' @ text"
proof (intro conjI impI allI)
  assume "\<forall>v. JSON_parse P text \<noteq> Inr v"
  then obtain e where e: "JSON_parse P text = Inl e" by (cases "JSON_parse P text") auto
  from JSON_parse_Inl [OF e] e assms
  show "buildBodyFromTemplate P tpl vin
          = Inl (TemplateRenderError (syntax_error_message P text) text)"
    by (simp add: buildBodyFromTemplate_def)
next
  fix v assume "JSON_parse P text = Inr v"
  with assms show "buildBodyFromTemplate P tpl vin = Inr \<lparr>body = v, interpolated = text\<rparr>"
    by (simp add: buildBodyFromTemplate_def)
next
  show "message (TemplateRenderError d text)
         = js ''Interpolated message_template is not valid JSON. Error: '' @ d
           @ js ''. Content: '' @ text"
    by (simp add: TemplateRenderError_def)
qed

theorem validation_outcome_witness:
  \<open>buildBodyFromTemplate example_platform (js ''{"text":"{{who}}"}'') (Some (js ''who=a"b''))
     = Inl (TemplateRenderError (js ''Unexpected token'') (js ''{"text":"a"b"}''))
   \<and> buildBodyFromTemplate example_platform (js ''{"text":"{{who}}"}'') (Some (js ''who=ab''))
     = Inr \<lparr>body = JObject [(js ''text'', JString (js ''ab''))],
            interpolated = js ''{"text":"ab"}''\<rparr>\<close>
proof -
  have h1: \<open>handlebars example_platform
              [(js ''json'', json_helper example_platform), (js ''jstr'', jstr_helper example_platform)]
              (js ''{"text":"{{who}}"}'') (parseVariables example_platform (Some (js ''who=a"b'')))
            = Inr (js ''{"text":"a"b"}'')\<close>
    by code_simp
  have \<open>JSON_parse example_platform (js ''{"text":"a"b"}'') = Inl (SyntaxError (js ''Unexpected token''))\<close>
    by code_simp
  then have n1: \<open>\<forall>v. JSON_parse example_platform (js ''{"text":"a"b"}'') \<noteq> Inr v\<close>
    by simp
  have m: \<open>syntax_error_message example_platform (js ''{"text":"a"b"}'') = js ''Unexpected token''\<close>
    by (simp add: example_platform_def)
  have h2: \<open>handlebars example_platform
              [(js ''json'', json_helper example_platform), (js ''jstr'', jstr_helper example_platform)]
              (js ''{"text":"{{who}}"}'') (parseVariables example_platform (Some (js ''who=ab'')))
            = Inr (js ''{"text":"ab"}'')\<close>
    by code_simp
  have p2: \<open>JSON_parse example_platform (js ''{"text":"ab"}'')
              = Inr (JObject [(js ''text'', JString (js ''ab''))])\<close>
    by code_simp
  from validation_outcome [OF h1, of "[]"] n1
  have \<open>buildBodyFromTemplate example_platform (js ''{"text":"{{who}}"}'') (Some (js ''who=a"b''))
     = Inl (TemplateRenderError (syntax_error_message example_platform (js ''{"text":"a"b"}''))
              (js ''{"text":"a"b"}''))\<close>
    by blast
  then have 1: \<open>buildBodyFromTemplate example_platform (js ''{"text":"{{who}}"}'') (Some (js ''who=a"b''))
     = Inl (TemplateRenderError (js ''Unexpected token'') (js ''{"text":"a"b"}''))\<close>
    unfolding m .
  from validation_outcome [OF h2, of "[]"] p2
  have 2: \<open>buildBodyFromTemplate example_platform (js ''{"text":"{{who}}"}'') (Some (js ''who=ab''))
     = Inr \<lparr>body = JObject [(js ''text'', JString (js ''ab''))],
            interpolated = js ''{"text":"ab"}''\<rparr>\<close>
    by blast
  from 1 2 show ?thesis by (rule conjI)
qed


section \<open>Runs of the action\<close>

lemma uint_ch: "uint (ch c) = of_char c"
proof -
  have "(of_char c :: int) < 256" "0 \<le> (of_char c :: int)"
    by (simp_all add: of_char_def)
  then show ?thesis by (simp add: ch_def uint_word_of_int)
qed

lemma ch_inject: "ch c = ch d \<longleftrightarrow> c = d"
proof
  assume "ch c = ch d"
  then have "uint (ch c) = uint (ch d)" by simp
  then have "(of_char c :: int) = of_char d" by (simp only: uint_ch)
  then show "c = d" by simp
qed simp

lemma js_inject: "js a = js b \<longleftrightarrow> a = b"
  unfolding js_def by (rule inj_map_eq_map) (simp add: inj_on_def ch_inject)

lemma bind_Inr: "bind m f = Inr y \<longleftrightarrow> (\<exists>x. m = Inr x \<and> f x = Inr y)"
  by (cases m) (simp_all add: bind_def)

lemma getInput_optional: "getInput env name False = Inr (trim (case env name of None \<Rightarrow> [] | Some v \<Rightarrow> v))"
  by (simp add: getInput_def)



lemma getInput_upd_other: "name \<noteq> k \<Longrightarrow> getInput (env(k := s)) name r = getInput env name r"
  by (simp add: getInput_def)

lemma getBooleanInput_upd_other:
  "name \<noteq> k \<Longrightarrow> getBooleanInput (env(k := s)) name = getBooleanInput env name"
  by (simp add: getBooleanInput_def getInput_upd_other)

lemma read_inputs_secret:
  assumes "read_inputs env = Inr i"
  shows "read_inputs (env(js ''webhook_secret'' := s))
           = Inr (i\<lparr>webhookSecret := trim (case s of None \<Rightarrow> [] | Some v \<Rightarrow> v)\<rparr>)"
  using assms unfolding read_inputs_def bind_Inr
  by (auto simp: getInput_upd_other getBooleanInput_upd_other js_inject getInput_optional)

lemma run_dry:
  assumes "read_inputs env = Inr i" "dryRun i"
  shows "run P env =
     (case buildBodyFromTemplate P (template i) (Some (variablesInput i)) of
        Inl e \<Rightarrow> setFailed (message e)
                   (debug (js ''Building Lark message body from template and variables'') initial_state)
      | Inr built \<Rightarrow> dry_run_state (interpolated built))"
  using assms
  by (simp add: run_def Let_def dry_run_state_def setOutput_def info_def debug_def
        initial_state_def split: sum.splits)


text \<open>
  C1, as amended. In dry-run mode, for every template, variables input and secret, the
  program renders and validates the body as a normal run does, and never makes the
  check of the signing precondition: the secret has no effect on the run. When rendering
  or validation fails, the run fails with that error and sets no output. Otherwise it
  logs the interpolated text, sends nothing, and sets \<open>ok\<close> to true, \<open>status\<close> to 0 and
  \<open>response_text\<close> to \<open>dry_run\<close>.
\<close>

theorem dry_run_outcome:
  assumes "read_inputs env = Inr i" "dryRun i"
  shows "sent (run P env) = []
     \<and> (\<forall>e. buildBodyFromTemplate P (template i) (Some (variablesInput i)) = Inl e \<longrightarrow>
            failed (run P env) = Some (message e) \<and> outputs (run P env) = [])
     \<and> (\<forall>built. buildBodyFromTemplate P (template i) (Some (variablesInput i)) = Inr built \<longrightarrow>
            run P env = dry_run_state (interpolated built))
     \<and> run P (env(js ''webhook_secret'' := secret)) = run P env"
proof -
  let ?i' = "i\<lparr>webhookSecret := trim (case secret of None \<Rightarrow> [] | Some v \<Rightarrow> v)\<rparr>"
  have r: "run P env =
     (case buildBodyFromTemplate P (template i) (Some (variablesInput i)) of
        Inl e \<Rightarrow> setFailed (message e)
                   (debug (js ''Building Lark message body from template and variables'') initial_state)
      | Inr built \<Rightarrow> dry_run_state (interpolated built))"
    by (rule run_dry [OF assms])
  have "dryRun ?i'" using assms(2) by simp
  from run_dry [OF read_inputs_secret [OF assms(1)] this, of P]
  have r': "run P (env(js ''webhook_secret'' := secret)) = run P env"
    unfolding r by simp
  have 1: "sent (run P env) = []"
    unfolding r
    by (simp add: setFailed_def debug_def initial_state_def dry_run_state_def split: sum.splits)
  have 2: "\<forall>e. buildBodyFromTemplate P (template i) (Some (variablesInput i)) = Inl e \<longrightarrow>
            failed (run P env) = Some (message e) \<and> outputs (run P env) = []"
    unfolding r by (simp add: setFailed_def debug_def initial_state_def)
  have 3: "\<forall>built. buildBodyFromTemplate P (template i) (Some (variablesInput i)) = Inr built \<longrightarrow>
            run P env = dry_run_state (interpolated built)"
    unfolding r by simp
  from 1 2 3 r' show ?thesis by (intro conjI)
qed


theorem dry_run_outcome_witness:
  \<open>run example_platform
     (example_env [(''webhook_url'', ''https://example''),
        (''message_template'', ''{"msg_type":"text","content":{"text":"Hello {{jstr who}}"}}''),
        (''variables'', ''who=CI''), (''dry_run'', ''true''), (''fail_on_http_error'', ''true'')])
   = dry_run_state (js ''{"msg_type":"text","content":{"text":"Hello CI"}}'')\<close>
proof -
  let ?env = \<open>example_env [(''webhook_url'', ''https://example''),
        (''message_template'', ''{"msg_type":"text","content":{"text":"Hello {{jstr who}}"}}''),
        (''variables'', ''who=CI''), (''dry_run'', ''true''), (''fail_on_http_error'', ''true'')]\<close>
  let ?i = \<open>\<lparr>webhookUrl = js ''https://example'', webhookSecret = [],
        template = js ''{"msg_type":"text","content":{"text":"Hello {{jstr who}}"}}'',
        variablesInput = js ''who=CI'', dryRun = True, timeoutMsInput = [],
        failOnHttpError = True\<rparr>\<close>
  have i: "read_inputs ?env = Inr ?i" by code_simp
  have d: "dryRun ?i" by simp
  have b: \<open>buildBodyFromTemplate example_platform (template ?i) (Some (variablesInput ?i))
      = Inr \<lparr>body = JObject [(js ''msg_type'', JString (js ''text'')),
                 (js ''content'', JObject [(js ''text'', JString (js ''Hello CI''))])],
             interpolated = js ''{"msg_type":"text","content":{"text":"Hello CI"}}''\<rparr>\<close>
    by code_simp
  from dry_run_outcome [OF i d, of example_platform None] b show ?thesis
    by simp
qed


text \<open>
  C1 as stated fails: with a secret and the body \<open>[1]\<close>, which is not an object, a dry
  run succeeds and sets its outputs; the same inputs fail a normal run.
\<close>

theorem dry_run_checks_signing_counterexample:
  \<open>failed (run example_platform
      (example_env [(''webhook_url'', ''https://example''), (''webhook_secret'', ''abc''),
         (''message_template'', ''[1]''), (''dry_run'', ''true''),
         (''fail_on_http_error'', ''true'')])) = None
   \<and> outputs (run example_platform
      (example_env [(''webhook_url'', ''https://example''), (''webhook_secret'', ''abc''),
         (''message_template'', ''[1]''), (''dry_run'', ''true''),
         (''fail_on_http_error'', ''true'')]))
     = [(js ''ok'', OutBool True), (js ''status'', OutNum 0),
        (js ''response_text'', OutStr (js ''dry_run''))]
   \<and> failed (run example_platform
      (example_env [(''webhook_url'', ''https://example''), (''webhook_secret'', ''abc''),
         (''message_template'', ''[1]''), (''dry_run'', ''false''),
         (''fail_on_http_error'', ''true'')])) = Some (message SigningPreconditionError)\<close>
  by code_simp












section \<open>Escaping and decoding\<close>











lemma trim_Nil_iff: "trim s = [] \<longleftrightarrow> (\<forall>c\<in>set s. is_white_space c)"
proof -
  have a: "(\<forall>c\<in>set (dropWhile is_white_space s). is_white_space c) \<longleftrightarrow> (\<forall>c\<in>set s. is_white_space c)"
  proof
    assume l: "\<forall>c\<in>set (dropWhile is_white_space s). is_white_space c"
    have "dropWhile is_white_space s = []"
    proof (rule ccontr)
      assume n: "dropWhile is_white_space s \<noteq> []"
      then have "\<not> is_white_space (hd (dropWhile is_white_space s))" by (rule hd_dropWhile)
      moreover have "hd (dropWhile is_white_space s) \<in> set (dropWhile is_white_space s)"
        using n by simp
      ultimately show False using l by blast
    qed
    then show "\<forall>c\<in>set s. is_white_space c" by (simp add: dropWhile_eq_Nil_conv)
  next
    assume "\<forall>c\<in>set s. is_white_space c"
    then show "\<forall>c\<in>set (dropWhile is_white_space s). is_white_space c"
      by (auto dest: set_dropWhileD)
  qed
  show ?thesis by (simp add: trim_def dropWhile_eq_Nil_conv a)
qed











section \<open>Parsing the variables\<close>

lemma js_true: "js ''true'' = [0x74, 0x72, 0x75, 0x65]"
  and js_false: "js ''false'' = [0x66, 0x61, 0x6C, 0x73, 0x65]"
  and js_null: "js ''null'' = [0x6E, 0x75, 0x6C, 0x6C]"
  by (simp_all add: js_def ch_def)

lemma parse_value_other:
  assumes "c \<noteq> 0x7B" "c \<noteq> 0x5B" "c \<noteq> DQUOTE" "c \<noteq> 0x2D" "\<not> is_digit c"
    "c \<noteq> 0x74" "c \<noteq> 0x66" "c \<noteq> 0x6E"
  shows "parse_value P (c # cs) = None"
  using assms
  by (simp add: parse_value.simps startsWith_def js_true js_false js_null)

lemma parse_value_space: "is_white_space c \<Longrightarrow> parse_value P (c # cs) = None"
  by (rule parse_value_other)
     (auto simp: is_white_space_def is_line_terminator_def is_digit_def)

lemma parse_value_sep: "c = 0x3D \<or> c = 0x3A \<Longrightarrow> parse_value P (c # r) = None"
  by (rule parse_value_other) (auto simp: is_digit_def)

lemma JSON_parse_blank:
  assumes "trim s = []"
  shows "JSON_parse P s = Inl (SyntaxError (syntax_error_message P s))"
proof (cases "skip_ws s")
  case Nil
  then show ?thesis by (simp add: JSON_parse_def parse_value.simps)
next
  case (Cons c cs)
  then have "c \<in> set s"
    using set_dropWhileD [of c is_json_ws s] by (simp add: skip_ws_def)
  with assms have "is_white_space c" by (simp add: trim_Nil_iff)
  with Cons show ?thesis by (simp add: JSON_parse_def parse_value_space)
qed

text \<open>
  C9. Whenever the input parses as a JSON object, \<open>parseVariables\<close> returns the decoded
  object itself: its properties with their values as \<open>JSON.parse\<close> gave them.
\<close>

theorem parseVariables_object:
  assumes "JSON_parse P s = Inr (JObject ps)"
  shows "parseVariables P (Some s) = ps"
proof -
  from assms JSON_parse_blank [of s P] have t: "trim s \<noteq> []" by auto
  then have "s \<noteq> []" using trim_Nil by metis
  with t assms show ?thesis by (simp add: parseVariables_def)
qed

theorem parseVariables_object_witness:
  \<open>parseVariables example_platform
     (Some (js ''{"name":"World","nested":{"n":1},"arr":[1,2,3],"flag":"true"}''))
   = [(js ''name'', JString (js ''World'')),
      (js ''nested'', JObject [(js ''n'', JNumber (Some 1))]),
      (js ''arr'', JArray [JNumber (Some 1), JNumber (Some 2), JNumber (Some 3)]),
      (js ''flag'', JString (js ''true''))]\<close>
proof -
  have \<open>JSON_parse example_platform
     (js ''{"name":"World","nested":{"n":1},"arr":[1,2,3],"flag":"true"}'')
   = Inr (JObject [(js ''name'', JString (js ''World'')),
      (js ''nested'', JObject [(js ''n'', JNumber (Some 1))]),
      (js ''arr'', JArray [JNumber (Some 1), JNumber (Some 2), JNumber (Some 3)]),
      (js ''flag'', JString (js ''true''))])\<close>
    by code_simp
  then show ?thesis by (rule parseVariables_object)
qed

lemma sep_not_space: "c = 0x3D \<or> c = 0x3A \<Longrightarrow> \<not> is_white_space (c :: jschar)"
  by (auto simp: is_white_space_def is_line_terminator_def)

lemma skip_ws_sep: "c = 0x3D \<or> c = 0x3A \<Longrightarrow> skip_ws (c # r) = c # r"
  by (auto simp: skip_ws_def is_json_ws_def)

lemma split_lines_one: "LF \<notin> set s \<Longrightarrow> split_lines s = [s]"
proof (induction s)
  case Nil
  show ?case by simp
next
  case (Cons c cs)
  then have "take 1 cs \<noteq> [LF]" by (cases cs) auto
  with Cons show ?case by simp
qed

lemma trim_dropWhile: "trim (dropWhile is_white_space s) = trim s"
  by (simp add: trim_def)

lemma proto_not_Nil: "js ''__proto__'' \<noteq> []"
  by (simp add: js_def)

lemma kv_scan_prefix: "kv_scan g1 s = Some (m1, m3) \<Longrightarrow> \<exists>t. m1 = g1 @ t"
proof (induction s arbitrary: g1)
  case Nil
  then show ?case by auto
next
  case (Cons c cs)
  show ?case
  proof (cases "kv_tail (c # cs)")
    case (Some g3)
    with Cons.prems show ?thesis by simp
  next
    case None
    with Cons.prems have "kv_scan (g1 @ [c]) cs = Some (m1, m3)"
      by (simp split: if_splits)
    from Cons.IH [OF this] show ?thesis by auto
  qed
qed

text \<open>
  C10, as amended. Take a line whose first character is the separator \<open>=\<close> or \<open>:\<close>.
  It is not a comment line. When what follows the separator, after its leading white
  space, holds no line terminator (a lone carriage return, U+2028 or U+2029), the
  pattern matches with the empty key: the loop sets the entry of the empty string to the
  coerced, trimmed remainder, and an input made of this one line alone yields exactly
  this entry. When it does hold a line terminator, the pattern does not match with an
  empty key.
\<close>

theorem separator_first:
  assumes "c = 0x3D \<or> c = 0x3A"
  shows "\<not> startsWith (c # r) (js ''#'')
     \<and> (list_all (\<lambda>d. \<not> is_line_terminator d) (dropWhile is_white_space r) \<longrightarrow>
          re_exec (c # r) = Some ([], dropWhile is_white_space r)
          \<and> kv_line P vars (c # r) = obj_set vars [] (coerceValue P (trim r))
          \<and> (trim (c # r) = c # r \<and> LF \<notin> set r \<longrightarrow>
               parseVariables P (Some (c # r)) = [([], coerceValue P (trim r))]))
     \<and> (\<not> list_all (\<lambda>d. \<not> is_line_terminator d) (dropWhile is_white_space r) \<longrightarrow>
          (\<forall>m3. re_exec (c # r) \<noteq> Some ([], m3)))"
proof (intro conjI impI allI)
  from assms show n: "\<not> startsWith (c # r) (js ''#'')"
    by (auto simp: startsWith_def js_def ch_def)
  {
    assume g: "list_all (\<lambda>d. \<not> is_line_terminator d) (dropWhile is_white_space r)"
    with sep_not_space [OF assms] assms
    have "kv_tail (c # r) = Some (dropWhile is_white_space r)"
      by (auto simp: kv_tail_def)
    then show e: "re_exec (c # r) = Some ([], dropWhile is_white_space r)"
      by (simp add: re_exec_def)
    show k: "kv_line P vars (c # r) = obj_set vars [] (coerceValue P (trim r))" for vars
      using proto_not_Nil by (simp add: kv_line_def e trim_Nil trim_dropWhile)
    assume a: "trim (c # r) = c # r \<and> LF \<notin> set r"
    from assms a have l: "split_lines (c # r) = [c # r]"
      by (intro split_lines_one) auto
    have p: "JSON_parse P (c # r) = Inl (SyntaxError (syntax_error_message P (c # r)))"
      by (simp add: JSON_parse_def skip_ws_sep [OF assms] parse_value_sep [OF assms])
    have o: "obj_set [] [] (coerceValue P (trim r)) = [([], coerceValue P (trim r))]"
      by (simp add: obj_set_def is_array_index_def)
    from a have t: "trim (c # r) \<noteq> []" by simp
    have "parseVariables P (Some (c # r))
            = foldl (kv_line P) []
                (filter (\<lambda>l. l \<noteq> [] \<and> \<not> startsWith l (js ''#'')) (map trim (split_lines (c # r))))"
      using t by (simp add: parseVariables_def p del: split_lines.simps)
    also have "\<dots> = kv_line P [] (c # r)"
      unfolding l using a n by simp
    finally show "parseVariables P (Some (c # r)) = [([], coerceValue P (trim r))]"
      by (simp only: k o)
  }
  fix m3
  assume g: "\<not> list_all (\<lambda>d. \<not> is_line_terminator d) (dropWhile is_white_space r)"
  with sep_not_space [OF assms] assms have t: "kv_tail (c # r) = None"
    by (auto simp: kv_tail_def)
  show "re_exec (c # r) \<noteq> Some ([], m3)"
  proof
    assume "re_exec (c # r) = Some ([], m3)"
    with t have "kv_scan [c] r = Some ([], m3)"
      by (simp add: re_exec_def split: if_splits)
    from kv_scan_prefix [OF this] show False by simp
  qed
qed

theorem separator_first_witness:
  "parseVariables example_platform (Some (js ''=foo'')) = [([], JString (js ''foo''))]
   \<and> kv_line example_platform [(js ''a'', JNull)] (js '': 42'')
       = [(js ''a'', JNull), ([], JNumber (Some 42))]"
proof -
  have c: "(0x3D :: jschar) = 0x3D \<or> (0x3D :: jschar) = 0x3A" "(0x3A :: jschar) = 0x3D \<or> (0x3A :: jschar) = 0x3A"
    by simp_all
  have r: "list_all (\<lambda>d. \<not> is_line_terminator d) (dropWhile is_white_space (js ''foo''))"
    "list_all (\<lambda>d. \<not> is_line_terminator d) (dropWhile is_white_space (js '' 42''))"
    by code_simp+
  have t: "trim (0x3D # js ''foo'') = 0x3D # js ''foo'' \<and> LF \<notin> set (js ''foo'')"
    by code_simp
  have v: "coerceValue example_platform (trim (js ''foo'')) = JString (js ''foo'')"
    "obj_set [(js ''a'', JNull)] [] (coerceValue example_platform (trim (js '' 42'')))
       = [(js ''a'', JNull), ([], JNumber (Some 42))]"
    by code_simp+
  have s: "js ''=foo'' = 0x3D # js ''foo''" "js '': 42'' = 0x3A # js '' 42''"
    by (simp_all add: js_def ch_def)
  from separator_first [OF c(1), of "js ''foo''" example_platform "[]"] r(1) t
  have 1: "parseVariables example_platform (Some (0x3D # js ''foo''))
             = [([], coerceValue example_platform (trim (js ''foo'')))]"
    by blast
  from separator_first [OF c(2), of "js '' 42''" example_platform "[(js ''a'', JNull)]"] r(2)
  have 2: "kv_line example_platform [(js ''a'', JNull)] (0x3A # js '' 42'')
             = obj_set [(js ''a'', JNull)] [] (coerceValue example_platform (trim (js '' 42'')))"
    by blast
  from 1 2 show ?thesis unfolding s v by (rule conjI)
qed

text \<open>
  C10 as stated fails: the line \<open>=foo\<close>, carriage return, \<open>bar\<close> is one trimmed line
  that begins with the separator; the pattern does not match it (\<open>.\<close> does not match a
  carriage return and \<open>$\<close> only matches at the end), so the line is skipped and no entry
  is made.
\<close>

theorem separator_first_counterexample:
  "trim (js ''=foo'' @ CR # js ''bar'') = js ''=foo'' @ CR # js ''bar''
   \<and> split_lines (js ''=foo'' @ CR # js ''bar'') = [js ''=foo'' @ CR # js ''bar'']
   \<and> hd (js ''=foo'' @ CR # js ''bar'') = 0x3D
   \<and> re_exec (js ''=foo'' @ CR # js ''bar'') = None
   \<and> parseVariables example_platform (Some (js ''=foo'' @ CR # js ''bar'')) = []"
  by code_simp

end
